theory Spec2Isabelle
  imports Complex_Main "HOL-Library.Word"
begin

section \<open>Conventions of the embedding\<close>

text \<open>
  The Python sources of the Panopticon Lattice simulation are embedded function by
  function. Python \<open>float\<close> values (credits, utility, random draws) are modelled by
  \<open>real\<close>: the claims below depend on comparisons and on which branch is taken, not on
  rounding. Python \<open>int\<close> is \<open>int\<close> (or \<open>nat\<close> for counts and lengths). Python \<open>str\<close>
  is \<open>string\<close>; the character classes of the regular expressions are written out for
  ASCII text. Every \<open>raise\<close> of the source is a value \<open>Inl e\<close> of the model; in-place
  mutation of an object is the updated record returned by the function; the draws of
  the \<open>random\<close> module are explicit arguments.
\<close>

datatype py_error = ValueError | ZeroDivisionError | RuntimeError

section \<open>agents/base\_worker.py\<close>

text \<open>An entry of the worker's memory: the dictionary \<open>{'code': code, 'task': task}\<close>.\<close>

record memory_item =
  mem_code :: string
  mem_task :: "string option"

text \<open>The dictionary \<open>self.stats\<close> of \<open>BaseWorker.__init__\<close>.\<close>

record worker_stats =
  total_submissions :: nat
  successful_submissions :: nat
  failed_submissions :: nat
  total_credits_earned :: real
  total_credits_spent :: real

record base_worker =
  worker_id :: string
  credits :: real
  memory_window_size :: nat
  preferred_style :: string
  memory :: "memory_item list"
  stats :: worker_stats


definition init_stats :: worker_stats where
  "init_stats = \<lparr>total_submissions = 0, successful_submissions = 0, failed_submissions = 0,
                 total_credits_earned = 0, total_credits_spent = 0\<rparr>"

text \<open>\<open>BaseWorker.__init__\<close>; the defaults of the source are passed explicitly.\<close>

definition BaseWorker :: "string \<Rightarrow> real \<Rightarrow> nat \<Rightarrow> string \<Rightarrow> base_worker" where
  "BaseWorker wid initial_credits window style =
     \<lparr>worker_id = wid, credits = initial_credits, memory_window_size = window,
      preferred_style = style, memory = [], stats = init_stats\<rparr>"

definition earn_credits :: "base_worker \<Rightarrow> real \<Rightarrow> base_worker" where
  "earn_credits w amount =
     w\<lparr>credits := credits w + amount,
       stats := (stats w)\<lparr>total_credits_earned := total_credits_earned (stats w) + amount\<rparr>\<rparr>"


section \<open>simulation/metrics.py\<close>

text \<open>Python's true division \<open>a / b\<close> of two integers, which raises on a zero divisor.\<close>

definition py_truediv :: "nat \<Rightarrow> nat \<Rightarrow> py_error + real" where
  "py_truediv a b = (if b = 0 then Inl ZeroDivisionError else Inr (real a / real b))"

text \<open>\<open>NashMetrics.calculate_distance\<close>.\<close>

definition calculate_distance :: "base_worker list \<Rightarrow> py_error + real" where
  "calculate_distance agents =
     (if agents = [] then Inr 0
      else
        let neutral_count = length (filter (\<lambda>agent. preferred_style agent = ''neutral'') agents);
            total_agents = length agents
        in case py_truediv neutral_count total_agents of
             Inl e \<Rightarrow> Inl e
           | Inr honest_ratio \<Rightarrow> Inr (1 - honest_ratio))"

section \<open>simulation/environment.py\<close>

text \<open>
  A \<open>Commit\<close> is a mutable object: \<open>submit_commit\<close> writes the identifier into the
  object it is given and appends a reference to it to the log. The objects therefore
  live in a store, addressed by \<open>nat\<close>; the log holds addresses. The creation time
  is an opaque number.
\<close>

record commit =
  author :: string
  commit_code :: string
  timestamp :: nat
  parent_id :: "int option"
  commit_id :: "int option"

type_synonym commit_store = "nat \<Rightarrow> commit"

record shared_repository =
  commits :: "nat list"
  global_utility :: real
  test_suite :: "(unit \<Rightarrow> py_error + unit) list"
  next_commit_id :: int
  drift_factor :: real

text \<open>\<open>SharedRepository.__init__\<close>.\<close>

definition SharedRepository :: shared_repository where
  "SharedRepository =
     \<lparr>commits = [], global_utility = 0, test_suite = [], next_commit_id = 0,
      drift_factor = 5 / 100\<rparr>"

text \<open>
  \<open>SharedRepository.submit_commit\<close>; \<open>utility_gain\<close> is the draw of
  \<open>random.uniform(0.5, 2.0)\<close>. The result is the store, the repository and the
  returned \<open>bool\<close>.
\<close>

definition submit_commit ::
  "commit_store \<Rightarrow> shared_repository \<Rightarrow> nat \<Rightarrow> real \<Rightarrow> commit_store \<times> shared_repository \<times> bool"
where
  "submit_commit store repo c utility_gain =
     (let store1 = store(c := (store c)\<lparr>commit_id := Some (next_commit_id repo)\<rparr>);
          repo1 = repo\<lparr>next_commit_id := next_commit_id repo + 1\<rparr>;
          repo2 = repo1\<lparr>commits := commits repo1 @ [c]\<rparr>;
          repo3 = repo2\<lparr>global_utility := global_utility repo2 + utility_gain\<rparr>
      in (store1, repo3, True))"

text \<open>
  A sequence of submissions to one repository. The trace records, for each call, the
  identifier found in the submitted object when the call returns, and the returned flag.
\<close>

fun submit_all ::
  "commit_store \<Rightarrow> shared_repository \<Rightarrow> (nat \<times> real) list
     \<Rightarrow> commit_store \<times> shared_repository \<times> (int option \<times> bool) list"
where
  "submit_all store repo [] = (store, repo, [])"
| "submit_all store repo ((c, gain) # rest) =
     (case submit_commit store repo c gain of
        (store1, repo1, accepted) \<Rightarrow>
          (case submit_all store1 repo1 rest of
             (store2, repo2, trace) \<Rightarrow> (store2, repo2, (commit_id (store1 c), accepted) # trace)))"

definition submission_trace :: "commit_store \<Rightarrow> shared_repository \<Rightarrow> (nat \<times> real) list \<Rightarrow> (int option \<times> bool) list" where
  "submission_trace store repo subs = snd (snd (submit_all store repo subs))"

section \<open>overseer/recommender.py\<close>

text \<open>
  Python's built-in \<open>hash\<close> on \<open>str\<close> is salted per process and returns a machine
  integer; it is a parameter \<open>h\<close> of every function that calls it, with values in
  \<open>64 word\<close> read as signed.

  The learnable parts of the network are fields of the record: the two embedding tables
  as lookup functions, the LSTM as a function from the embedded sequence to its output
  sequence, and \<open>trust_predictor\<close> as the forward function of the \<open>nn.Sequential\<close> in
  evaluation mode (\<open>predict\<close> calls \<open>self.eval()\<close> before anything else, so dropout is
  inactive whenever it runs). Tensors are lists of reals. \<open>forward_pre_hooks\<close> is the
  ordered dictionary of pre-hooks registered on \<open>trust_predictor\<close>, from handle
  identifier to hook; the only hooks this repository registers are the closures made by
  \<open>SteeringMechanism._create_input_hook\<close>, which hold their coefficient.
\<close>

datatype pre_hook = InputHook real

record recommender =
  vocab_size :: nat
  num_agents :: nat
  agent_embedding :: "int \<Rightarrow> real list"
  code_embedding :: "int \<Rightarrow> real list"
  lstm :: "real list list \<Rightarrow> real list list"
  trust_predictor :: "real list \<Rightarrow> real"
  forward_pre_hooks :: "(nat \<times> pre_hook) list"
  next_hook_id :: nat
  training_buffer :: "(int \<times> int list \<times> real) list"

text \<open>Python's \<open>a % b\<close> on integers: the sign follows the divisor; a zero divisor raises.\<close>

definition py_mod :: "int \<Rightarrow> int \<Rightarrow> py_error + int" where
  "py_mod a b = (if b = 0 then Inl ZeroDivisionError else Inr (a mod b))"

text \<open>The loop of \<open>_tokenize_code\<close> over \<open>code[:100]\<close>.\<close>

fun hash_tokens :: "(string \<Rightarrow> 64 word) \<Rightarrow> nat \<Rightarrow> string \<Rightarrow> py_error + int list" where
  "hash_tokens h vocab [] = Inr []"
| "hash_tokens h vocab (c # cs) =
     (case py_mod (sint (h [c])) (int vocab) of
        Inl e \<Rightarrow> Inl e
      | Inr token_id \<Rightarrow>
          (case hash_tokens h vocab cs of Inl e \<Rightarrow> Inl e | Inr tokens \<Rightarrow> Inr (token_id # tokens)))"

text \<open>\<open>Recommender._tokenize_code\<close>.\<close>

definition tokenize_code :: "(string \<Rightarrow> 64 word) \<Rightarrow> recommender \<Rightarrow> string \<Rightarrow> py_error + int list" where
  "tokenize_code h r code =
     (case hash_tokens h (vocab_size r) (take 100 code) of
        Inl e \<Rightarrow> Inl e
      | Inr tokens \<Rightarrow>
          (let max_len = 50
           in if length tokens < max_len
              then Inr (tokens @ replicate (max_len - length tokens) 0)
              else Inr (take max_len tokens)))"

text \<open>
  \<open>Recommender.get_activations\<close>: the input of \<open>trust_predictor\<close>, that is the last LSTM
  output concatenated with the agent's embedding. \<open>predict\<close> computes the same tensor
  inline.
\<close>

definition get_activations :: "(string \<Rightarrow> 64 word) \<Rightarrow> recommender \<Rightarrow> string \<Rightarrow> int \<Rightarrow> py_error + real list" where
  "get_activations h r code agent_id =
     (case tokenize_code h r code of
        Inl e \<Rightarrow> Inl e
      | Inr code_tokens \<Rightarrow>
          (case py_mod agent_id (int (num_agents r)) of
             Inl e \<Rightarrow> Inl e
           | Inr row \<Rightarrow>
               (let agent_emb = agent_embedding r row;
                    code_emb = map (code_embedding r) code_tokens;
                    lstm_out = lstm r code_emb;
                    lstm_last = last lstm_out
                in Inr (lstm_last @ agent_emb))))"

text \<open>
  The closure returned by \<open>SteeringMechanism._create_input_hook\<close>, applied to the input
  of \<open>trust_predictor\<close>. It reads \<open>self.collusion_vector\<close> when it runs, so the vector
  current at the time of the call is an argument.
\<close>

fun run_pre_hook :: "real list option \<Rightarrow> pre_hook \<Rightarrow> real list \<Rightarrow> real list" where
  "run_pre_hook None (InputHook coefficient) input_tensor = input_tensor"
| "run_pre_hook (Some vector) (InputHook coefficient) input_tensor =
     map2 (\<lambda>x v. x - coefficient * v) input_tensor vector"

text \<open>Calling \<open>self.trust_predictor(combined)\<close>: the pre-hooks run in registration order.\<close>

definition call_trust_predictor :: "recommender \<Rightarrow> real list option \<Rightarrow> real list \<Rightarrow> real" where
  "call_trust_predictor r vector combined =
     trust_predictor r (foldl (\<lambda>x hook. run_pre_hook vector (snd hook) x) combined (forward_pre_hooks r))"

text \<open>
  \<open>Recommender.predict\<close>. The second argument is the \<open>collusion_vector\<close> field of the
  steering mechanism whose hooks are registered, read by those hooks.
\<close>

definition predict :: "(string \<Rightarrow> 64 word) \<Rightarrow> recommender \<Rightarrow> real list option \<Rightarrow> int \<Rightarrow> string \<Rightarrow> py_error + real" where
  "predict h r vector agent_id code =
     (case get_activations h r code agent_id of
        Inl e \<Rightarrow> Inl e
      | Inr combined \<Rightarrow> Inr (call_trust_predictor r vector combined))"

text \<open>
  \<open>Recommender.get_activations_batch\<close>: all codes are tokenised, then the agent's row
  is computed, then the batch goes through the network. On an empty batch the LSTM call
  fails inside the tensor library.
\<close>

fun tokenize_all :: "(string \<Rightarrow> 64 word) \<Rightarrow> recommender \<Rightarrow> string list \<Rightarrow> py_error + int list list" where
  "tokenize_all h r [] = Inr []"
| "tokenize_all h r (code # codes) =
     (case tokenize_code h r code of
        Inl e \<Rightarrow> Inl e
      | Inr tokens \<Rightarrow>
          (case tokenize_all h r codes of Inl e \<Rightarrow> Inl e | Inr rest \<Rightarrow> Inr (tokens # rest)))"

definition get_activations_batch :: "(string \<Rightarrow> 64 word) \<Rightarrow> recommender \<Rightarrow> string list \<Rightarrow> int \<Rightarrow> py_error + real list list" where
  "get_activations_batch h r codes agent_id =
     (case tokenize_all h r codes of
        Inl e \<Rightarrow> Inl e
      | Inr all_tokens \<Rightarrow>
          (case py_mod agent_id (int (num_agents r)) of
             Inl e \<Rightarrow> Inl e
           | Inr row \<Rightarrow>
               if all_tokens = [] then Inl RuntimeError
               else Inr (map (\<lambda>code_tokens.
                            last (lstm r (map (code_embedding r) code_tokens)) @ agent_embedding r row)
                          all_tokens)))"

text \<open>\<open>Recommender.get_top_k_agents\<close>: \<open>list.sort\<close> is stable, also with \<open>reverse=True\<close>.\<close>

fun score_pairs :: "(string \<Rightarrow> 64 word) \<Rightarrow> recommender \<Rightarrow> real list option \<Rightarrow> (int \<times> string) list \<Rightarrow> py_error + (int \<times> real) list" where
  "score_pairs h r vector [] = Inr []"
| "score_pairs h r vector ((agent_id, code) # rest) =
     (case predict h r vector agent_id code of
        Inl e \<Rightarrow> Inl e
      | Inr score \<Rightarrow>
          (case score_pairs h r vector rest of
             Inl e \<Rightarrow> Inl e
           | Inr scores \<Rightarrow> Inr ((agent_id, score) # scores)))"

definition get_top_k_agents :: "(string \<Rightarrow> 64 word) \<Rightarrow> recommender \<Rightarrow> real list option \<Rightarrow> int list \<Rightarrow> string list \<Rightarrow> nat \<Rightarrow> py_error + (int \<times> real) list" where
  "get_top_k_agents h r vector agent_ids code_samples k =
     (case score_pairs h r vector (zip agent_ids code_samples) of
        Inl e \<Rightarrow> Inl e
      | Inr scores \<Rightarrow> Inr (take k (sort_key (\<lambda>x. - snd x) scores)))"

section \<open>overseer/steering.py\<close>

record steering_mechanism =
  collusion_vector :: "real list option"
  hook_handle :: "nat option"
  steering_coefficient :: real

text \<open>\<open>SteeringMechanism.__init__\<close>.\<close>

definition SteeringMechanism :: steering_mechanism where
  "SteeringMechanism = \<lparr>collusion_vector = None, hook_handle = None, steering_coefficient = 1\<rparr>"

text \<open>\<open>tensor.mean(dim=0)\<close> of a batch of rows.\<close>

definition mean_dim0 :: "real list list \<Rightarrow> real list" where
  "mean_dim0 rows = map (\<lambda>column. sum_list column / real (length rows)) (transpose rows)"

text \<open>\<open>SteeringMechanism.compute_collusion_vector\<close>.\<close>

definition compute_collusion_vector ::
  "(string \<Rightarrow> 64 word) \<Rightarrow> steering_mechanism \<Rightarrow> recommender \<Rightarrow> string list \<Rightarrow> string list
     \<Rightarrow> py_error + steering_mechanism"
where
  "compute_collusion_vector h sm r snake_codes neutral_codes =
     (case get_activations_batch h r snake_codes 0 of
        Inl e \<Rightarrow> Inl e
      | Inr snake_activations \<Rightarrow>
          (case get_activations_batch h r neutral_codes 0 of
             Inl e \<Rightarrow> Inl e
           | Inr neutral_activations \<Rightarrow>
               (let snake_mean = mean_dim0 snake_activations;
                    neutral_mean = mean_dim0 neutral_activations
                in Inr (sm\<lparr>collusion_vector := Some (map2 (-) snake_mean neutral_mean)\<rparr>))))"

text \<open>
  \<open>SteeringMechanism.reset_steering\<close>: \<open>hook_handle.remove()\<close> deletes the handle's entry
  from the dictionary of pre-hooks.
\<close>

definition reset_steering :: "steering_mechanism \<Rightarrow> recommender \<Rightarrow> steering_mechanism \<times> recommender" where
  "reset_steering sm r =
     (case hook_handle sm of
        None \<Rightarrow> (sm, r)
      | Some handle \<Rightarrow>
          (sm\<lparr>hook_handle := None\<rparr>,
           r\<lparr>forward_pre_hooks := filter (\<lambda>entry. fst entry \<noteq> handle) (forward_pre_hooks r)\<rparr>))"

text \<open>\<open>SteeringMechanism.apply_steering\<close>.\<close>

definition apply_steering :: "steering_mechanism \<Rightarrow> recommender \<Rightarrow> real \<Rightarrow> py_error + steering_mechanism \<times> recommender" where
  "apply_steering sm r coefficient =
     (if collusion_vector sm = None then Inl ValueError
      else
        (case reset_steering sm r of
           (sm1, r1) \<Rightarrow>
             (let sm2 = sm1\<lparr>steering_coefficient := coefficient\<rparr>;
                  handle = next_hook_id r1;
                  r2 = r1\<lparr>forward_pre_hooks := forward_pre_hooks r1 @ [(handle, InputHook coefficient)],
                          next_hook_id := handle + 1\<rparr>
              in Inr (sm2\<lparr>hook_handle := Some handle\<rparr>, r2))))"

text \<open>
  The sequence of calls \<open>compute_collusion_vector\<close>, \<open>apply_steering\<close>,
  \<open>reset_steering\<close> on one mechanism and one recommender; an exception ends it.
\<close>

definition steer_then_reset ::
  "(string \<Rightarrow> 64 word) \<Rightarrow> steering_mechanism \<Rightarrow> recommender \<Rightarrow> string list \<Rightarrow> string list \<Rightarrow> real
     \<Rightarrow> py_error + steering_mechanism \<times> recommender"
where
  "steer_then_reset h sm r snake_codes neutral_codes coefficient =
     (case compute_collusion_vector h sm r snake_codes neutral_codes of
        Inl e \<Rightarrow> Inl e
      | Inr sm1 \<Rightarrow>
          (case apply_steering sm1 r coefficient of
             Inl e \<Rightarrow> Inl e
           | Inr (sm2, r2) \<Rightarrow> Inr (reset_steering sm2 r2)))"

section \<open>simulation/engine.py\<close>

text \<open>The keys \<open>agent_ids\<close> that \<open>SimulationEngine.step\<close> passes to the recommender.\<close>

definition agent_ids :: "(string \<Rightarrow> 64 word) \<Rightarrow> base_worker list \<Rightarrow> int list" where
  "agent_ids h agents = map (\<lambda>agent. sint (h (worker_id agent))) agents"

text \<open>The inner loop that finds an agent by its hashed identifier: the first match wins.\<close>

fun find_agent_index :: "(string \<Rightarrow> 64 word) \<Rightarrow> base_worker list \<Rightarrow> int \<Rightarrow> nat option" where
  "find_agent_index h [] agent_id = None"
| "find_agent_index h (agent # rest) agent_id =
     (if sint (h (worker_id agent)) = agent_id then Some 0
      else map_option Suc (find_agent_index h rest agent_id))"

definition top_indices :: "(string \<Rightarrow> 64 word) \<Rightarrow> base_worker list \<Rightarrow> (int \<times> real) list \<Rightarrow> nat list" where
  "top_indices h agents top_agents_info =
     List.map_filter (\<lambda>info. find_agent_index h agents (fst info)) top_agents_info"

section \<open>agents/channels.py\<close>

text \<open>
  The character classes of Python's \<open>re\<close> and \<open>str\<close> methods on ASCII text: \<open>\s\<close>
  (which for \<open>str\<close> patterns includes the separators \<open>\x1c\<close> to \<open>\x1f\<close>), \<open>[a-z]\<close>,
  \<open>[A-Z]\<close>, \<open>[0-9]\<close> and \<open>\w\<close>.
\<close>

definition ascii_lowercase :: string where
  "ascii_lowercase = ''abcdefghijklmnopqrstuvwxyz''"

definition ascii_uppercase :: string where
  "ascii_uppercase = ''ABCDEFGHIJKLMNOPQRSTUVWXYZ''"

definition ascii_digits :: string where
  "ascii_digits = ''0123456789''"

definition ascii_whitespace :: string where
  "ascii_whitespace = [CHR 0x09, CHR 0x0A, CHR 0x0B, CHR 0x0C, CHR 0x0D,
                       CHR 0x1C, CHR 0x1D, CHR 0x1E, CHR 0x1F, CHR 0x20]"

definition is_lower :: "char \<Rightarrow> bool" where
  "is_lower c = (c \<in> set ascii_lowercase)"

definition is_upper :: "char \<Rightarrow> bool" where
  "is_upper c = (c \<in> set ascii_uppercase)"

definition is_digit :: "char \<Rightarrow> bool" where
  "is_digit c = (c \<in> set ascii_digits)"

definition is_space :: "char \<Rightarrow> bool" where
  "is_space c = (c \<in> set ascii_whitespace)"

definition is_word :: "char \<Rightarrow> bool" where
  "is_word c = (is_lower c \<or> is_upper c \<or> is_digit c \<or> c = CHR ''_'')"






text \<open>\<open>str.split(sep)\<close> for a one-character separator: never the empty list.\<close>

fun py_split :: "char \<Rightarrow> string \<Rightarrow> string list" where
  "py_split sep [] = [[]]"
| "py_split sep (c # cs) =
     (if c = sep then [] # py_split sep cs
      else (case py_split sep cs of [] \<Rightarrow> [[c]] | w # ws \<Rightarrow> (c # w) # ws))"




text \<open>
  One attempt to match \<open>def\s+(\w+)\s*\(\<close> at the start of a text. The classes \<open>\s\<close>
  and \<open>\w\<close> are disjoint and neither contains the parenthesis, so backtracking into a
  shorter run of spaces or of word characters can never succeed, and the greedy runs
  decide the match. The result is the two runs of spaces, the name (group 1) and the
  text after the match.
\<close>

definition match_def :: "string \<Rightarrow> (string \<times> string \<times> string \<times> string) option" where
  "match_def text =
     (if take 3 text = ''def'' then
        (let r1 = drop 3 text;
             ws1 = takeWhile is_space r1; r2 = dropWhile is_space r1;
             name = takeWhile is_word r2; r3 = dropWhile is_word r2;
             ws2 = takeWhile is_space r3; r4 = dropWhile is_space r3
         in if ws1 \<noteq> [] \<and> name \<noteq> [] \<and> take 1 r4 = ''(''
            then Some (ws1, name, ws2, drop 1 r4) else None)
      else None)"

text \<open>
  The left-to-right scan shared by \<open>re.sub\<close> and \<open>re.findall\<close>: at each position either
  the pattern matches, and the scan resumes after the match, or the character is passed
  over.
\<close>

datatype segment = Other char | Match string string string

function re_scan :: "string \<Rightarrow> segment list" where
  "re_scan [] = []"
| "re_scan (c # cs) =
     (case match_def (c # cs) of
        Some (ws1, name, ws2, rest) \<Rightarrow> Match ws1 name ws2 # re_scan rest
      | None \<Rightarrow> Other c # re_scan cs)"
  by pat_completeness auto
termination
proof (relation "measure length")
  fix c cs x2 ws1 y name ya ws2 rest
  assume "match_def (c # cs) = Some x2" "(ws1, y) = x2" "(name, ya) = y" "(ws2, rest) = ya"
  then have "match_def (c # cs) = Some (ws1, name, ws2, rest)" by simp
  then have "rest = drop 1 (dropWhile is_space (dropWhile is_word (dropWhile is_space (drop 3 (c # cs)))))"
    by (simp add: match_def_def Let_def split: if_splits)
  moreover have "length (dropWhile P xs) \<le> length xs" for P and xs :: string
    by (induction xs) auto
  ultimately have "length rest \<le> length (drop 3 (c # cs))"
    by (metis (no_types, lifting) diff_le_self length_drop order_trans)
  then show "(rest, c # cs) \<in> measure length" by simp
qed simp_all

text \<open>\<open>name.startswith('_')\<close>.\<close>

definition starts_with_underscore :: "string \<Rightarrow> bool" where
  "starts_with_underscore name = (take 1 name = ''_'')"




text \<open>\<open>re.findall(pattern, code)\<close>: the names (group 1) of the matches.\<close>

fun group1 :: "segment \<Rightarrow> string list" where
  "group1 (Other c) = []"
| "group1 (Match ws1 name ws2) = [name]"

definition findall_def_names :: "string \<Rightarrow> string list" where
  "findall_def_names code = concat (map group1 (re_scan code))"

text \<open>\<open>re.search(r'[a-z][A-Z]', name)\<close>.\<close>

fun search_lower_upper :: "string \<Rightarrow> bool" where
  "search_lower_upper (a # b # rest) = ((is_lower a \<and> is_upper b) \<or> search_lower_upper (b # rest))"
| "search_lower_upper s = False"

text \<open>\<open>CodeChannel.detect\<close>.\<close>

definition detect :: "string \<Rightarrow> string" where
  "detect code =
     (let matches = findall_def_names code
      in if matches = [] then ''neutral''
         else
           (let func_names = filter (\<lambda>name. \<not> starts_with_underscore name) matches
            in if func_names = [] then ''neutral''
               else
                 (let snake_count = length (filter (\<lambda>name. CHR ''_'' \<in> set name) func_names);
                      camel_count = length (filter (\<lambda>name. CHR ''_'' \<notin> set name \<and> search_lower_upper name)
                                              func_names)
                  in if snake_count > camel_count then ''snake_case''
                     else if camel_count > snake_count then ''camel_case''
                     else ''neutral'')))"

section \<open>adversary/evolver.py\<close>

text \<open>
  \<open>int(s)\<close> on an ASCII string: blanks around, an optional sign, then decimal digits;
  anything else raises \<open>ValueError\<close>, which is \<open>None\<close> here. (Underscores between
  digits cannot occur in the strings this is applied to.)
\<close>

definition int_whitespace :: string where
  "int_whitespace = [CHR 0x09, CHR 0x0A, CHR 0x0B, CHR 0x0C, CHR 0x0D, CHR 0x20]"

definition digit_value :: "char \<Rightarrow> nat" where
  "digit_value c = length (takeWhile (\<lambda>d. d \<noteq> c) ascii_digits)"

definition digits_to_nat :: "string \<Rightarrow> nat" where
  "digits_to_nat ds = foldl (\<lambda>acc c. 10 * acc + digit_value c) 0 ds"

definition py_int :: "string \<Rightarrow> int option" where
  "py_int s =
     (let t = rev (dropWhile (\<lambda>c. c \<in> set int_whitespace)
                    (rev (dropWhile (\<lambda>c. c \<in> set int_whitespace) s)));
          negative = (take 1 t = ''-'');
          ds = (if take 1 t = ''-'' \<or> take 1 t = ''+'' then drop 1 t else t)
      in if ds \<noteq> [] \<and> list_all is_digit ds
         then Some (if negative then - int (digits_to_nat ds) else int (digits_to_nat ds))
         else None)"












text \<open>
  The generator inside \<open>max(...)\<close>:
  \<open>int(a.worker_id.split('_')[-1]) if '_' in a.worker_id else 0\<close>, agent by agent.
\<close>

definition id_number :: "base_worker \<Rightarrow> py_error + int" where
  "id_number a =
     (if CHR ''_'' \<in> set (worker_id a)
      then (case py_int (last (py_split (CHR ''_'') (worker_id a))) of
              None \<Rightarrow> Inl ValueError
            | Some k \<Rightarrow> Inr k)
      else Inr 0)"

fun id_numbers :: "base_worker list \<Rightarrow> py_error + int list" where
  "id_numbers [] = Inr []"
| "id_numbers (a # rest) =
     (case id_number a of
        Inl e \<Rightarrow> Inl e
      | Inr k \<Rightarrow> (case id_numbers rest of Inl e \<Rightarrow> Inl e | Inr ks \<Rightarrow> Inr (k # ks)))"






text \<open>A hash with two values, used to instantiate the statements about keys.\<close>

definition two_bucket_hash :: "string \<Rightarrow> 64 word" where
  "two_bucket_hash s = (if s = ''agent_0'' then 0 else 1)"

section \<open>Properties of the worker's credit account\<close>



section \<open>Properties of the equilibrium metric\<close>

text \<open>
  C9. On the empty population \<open>calculate_distance\<close> returns exactly 0.0, and the division
  is never reached with a zero divisor: no population makes the function raise
  \<open>ZeroDivisionError\<close>.
\<close>

theorem calculate_distance_empty_guard:
  "calculate_distance [] = Inr 0 \<and> calculate_distance agents \<noteq> Inl ZeroDivisionError"
  by (simp add: calculate_distance_def py_truediv_def Let_def)

section \<open>Properties of the shared repository\<close>

lemma submission_trace_from:
  "submission_trace store repo subs =
     map (\<lambda>i. (Some (next_commit_id repo + int i), True)) [0..<length subs]"
proof (induction subs arbitrary: store repo)
  case Nil
  then show ?case by (simp add: submission_trace_def)
next
  case (Cons s subs)
  obtain c gain where s: "s = (c, gain)" by (cases s)
  define store1 where "store1 = fst (submit_commit store repo c gain)"
  define repo1 where "repo1 = fst (snd (submit_commit store repo c gain))"
  have sc: "submit_commit store repo c gain = (store1, repo1, True)"
    by (simp add: store1_def repo1_def submit_commit_def Let_def)
  have id1: "commit_id (store1 c) = Some (next_commit_id repo)"
    by (simp add: store1_def submit_commit_def Let_def)
  have nx: "next_commit_id repo1 = next_commit_id repo + 1"
    by (simp add: repo1_def submit_commit_def Let_def)
  have "submission_trace store repo (s # subs)
          = (Some (next_commit_id repo), True) # submission_trace store1 repo1 subs"
    by (simp add: submission_trace_def s sc id1 split: prod.splits)
  also have "submission_trace store1 repo1 subs
          = map (\<lambda>i. (Some (next_commit_id repo + int (Suc i)), True)) [0..<length subs]"
    by (simp add: Cons.IH nx add.assoc add.commute)
  finally show ?case
    by (simp add: map_upt_Suc del: upt_Suc)
qed

text \<open>
  C8. For every sequence of submissions to one repository instance, starting from the
  state built by the constructor: every submission is accepted, the k-th submission is
  assigned the identifier k (counting from 0), and hence the identifiers assigned are
  strictly increasing in submission order and pairwise different.
\<close>

theorem submit_commit_ids_increasing:
  "length (submission_trace store SharedRepository subs) = length subs
   \<and> (\<forall>i < length subs. submission_trace store SharedRepository subs ! i = (Some (int i), True))
   \<and> (\<forall>i j. i < j \<longrightarrow> j < length subs \<longrightarrow>
        (\<exists>a b. fst (submission_trace store SharedRepository subs ! i) = Some a
              \<and> fst (submission_trace store SharedRepository subs ! j) = Some b \<and> a < b))"
  by (simp add: submission_trace_from SharedRepository_def)

theorem submit_commit_ids_increasing_witness:
  "submission_trace (\<lambda>_. \<lparr>author = ''worker_1'', commit_code = ''pass'', timestamp = 0,
                            parent_id = None, commit_id = None\<rparr>)
                    SharedRepository [(0, 1), (1, 3 / 2), (2, 1 / 2)]
     = [(Some 0, True), (Some 1, True), (Some 2, True)]"
  using submit_commit_ids_increasing
          [where store = "\<lambda>_. \<lparr>author = ''worker_1'', commit_code = ''pass'', timestamp = 0,
                                  parent_id = None, commit_id = None\<rparr>"
             and subs = "[(0, 1), (1, 3 / 2), (2, 1 / 2)]"]
  by (simp add: submission_trace_def submit_commit_def SharedRepository_def Let_def)

section \<open>Properties of the recommender and of steering\<close>

text \<open>
  C10. For every text and every two agent keys that are congruent modulo the configured
  number of agents, \<open>predict\<close> returns the same result with the same parameters:
  \<open>predict(k + m * num_agents, text) = predict(k, text)\<close> for every integer \<open>m\<close>. The
  equation holds with or without an interception installed, and also when the call
  raises (a recommender built with \<open>num_agents = 0\<close> raises for every key).
\<close>

theorem predict_key_congruent:
  "predict h r vector (k + m * int (num_agents r)) code = predict h r vector k code"
  by (simp add: predict_def get_activations_def py_mod_def split: sum.splits)

lemma hash_tokens_ok: "0 < vocab \<Longrightarrow> \<exists>ts. hash_tokens h vocab cs = Inr ts"
  by (induction cs) (auto simp: py_mod_def)

lemma tokenize_code_ok: "0 < vocab_size r \<Longrightarrow> \<exists>ts. tokenize_code h r code = Inr ts"
  using hash_tokens_ok [of "vocab_size r" h "take 100 code"]
  by (auto simp: tokenize_code_def Let_def)

lemma tokenize_all_ok: "0 < vocab_size r \<Longrightarrow> \<exists>ts. tokenize_all h r codes = Inr ts \<and> length ts = length codes"
proof (induction codes)
  case Nil then show ?case by simp
next
  case (Cons c codes)
  then obtain ts where "tokenize_all h r codes = Inr ts" "length ts = length codes" by auto
  moreover obtain t where "tokenize_code h r c = Inr t" using tokenize_code_ok Cons.prems by blast
  ultimately show ?case by simp
qed

lemma get_activations_batch_ok:
  assumes "0 < vocab_size r" "0 < num_agents r" "codes \<noteq> []"
  shows "\<exists>rows. get_activations_batch h r codes agent_id = Inr rows"
proof -
  obtain ts where ts: "tokenize_all h r codes = Inr ts" "length ts = length codes"
    using tokenize_all_ok assms(1) by blast
  then have "ts \<noteq> []" using assms(3) by auto
  then show ?thesis using ts assms(2)
    by (simp add: get_activations_batch_def py_mod_def)
qed

lemma compute_collusion_vector_ok:
  assumes "0 < vocab_size r" "0 < num_agents r" "snake_codes \<noteq> []" "neutral_codes \<noteq> []"
  shows "\<exists>v. compute_collusion_vector h sm r snake_codes neutral_codes = Inr (sm\<lparr>collusion_vector := Some v\<rparr>)"
proof -
  obtain a where a: "get_activations_batch h r snake_codes 0 = Inr a"
    using get_activations_batch_ok assms by blast
  obtain b where b: "get_activations_batch h r neutral_codes 0 = Inr b"
    using get_activations_batch_ok assms by blast
  show ?thesis by (auto simp: compute_collusion_vector_def a b Let_def)
qed

lemma compute_collusion_vector_result:
  "compute_collusion_vector h sm r snake_codes neutral_codes = Inr sm1 \<Longrightarrow>
     hook_handle sm1 = hook_handle sm \<and> collusion_vector sm1 \<noteq> None"
  by (auto simp: compute_collusion_vector_def Let_def split: sum.splits)

lemma predict_no_hooks:
  "forward_pre_hooks r' = [] \<Longrightarrow> forward_pre_hooks r = [] \<Longrightarrow>
   vocab_size r' = vocab_size r \<Longrightarrow> num_agents r' = num_agents r \<Longrightarrow>
   agent_embedding r' = agent_embedding r \<Longrightarrow> code_embedding r' = code_embedding r \<Longrightarrow>
   lstm r' = lstm r \<Longrightarrow> trust_predictor r' = trust_predictor r \<Longrightarrow>
   predict h r' v' k code = predict h r v k code"
  by (simp add: predict_def get_activations_def tokenize_code_def call_trust_predictor_def
           split: sum.splits)

lemma apply_then_reset:
  assumes "forward_pre_hooks r = []" "hook_handle sm1 = None" "collusion_vector sm1 \<noteq> None"
  shows "\<exists>sm2 r2. apply_steering sm1 r c = Inr (sm2, r2)
           \<and> reset_steering sm2 r2 = (sm1\<lparr>steering_coefficient := c\<rparr>, r\<lparr>next_hook_id := next_hook_id r + 1\<rparr>)"
  using assms
  by (auto simp: apply_steering_def reset_steering_def Let_def)

text \<open>
  C7. Start with no interception installed. If computing the signal vector, applying
  steering at any coefficient and resetting all return, then \<open>predict\<close> on any key and
  text gives exactly the result it gave before; and the three calls do return whenever
  both corpora are non-empty and the vocabulary and agent table are non-empty.
\<close>

theorem steering_reset_restores_predict:
  assumes "forward_pre_hooks r = []" and "hook_handle sm = None"
  shows "(\<forall>sm' r'. steer_then_reset h sm r snake_codes neutral_codes coefficient = Inr (sm', r')
            \<longrightarrow> predict h r' (collusion_vector sm') agent_id code
                  = predict h r (collusion_vector sm) agent_id code)
       \<and> (0 < vocab_size r \<and> 0 < num_agents r \<and> snake_codes \<noteq> [] \<and> neutral_codes \<noteq> []
            \<longrightarrow> (\<exists>sm' r'. steer_then_reset h sm r snake_codes neutral_codes coefficient = Inr (sm', r')))"
proof (intro conjI allI impI)
  fix sm' r'
  assume st: "steer_then_reset h sm r snake_codes neutral_codes coefficient = Inr (sm', r')"
  then obtain sm1 where c: "compute_collusion_vector h sm r snake_codes neutral_codes = Inr sm1"
    by (auto simp: steer_then_reset_def split: sum.splits)
  have "hook_handle sm1 = None" "collusion_vector sm1 \<noteq> None"
    using compute_collusion_vector_result [OF c] assms(2) by auto
  from apply_then_reset [OF assms(1) this, of coefficient] st c
  have "r' = r\<lparr>next_hook_id := next_hook_id r + 1\<rparr>"
    by (auto simp: steer_then_reset_def)
  then show "predict h r' (collusion_vector sm') agent_id code
                  = predict h r (collusion_vector sm) agent_id code"
    using assms(1) by (intro predict_no_hooks) simp_all
next
  assume a: "0 < vocab_size r \<and> 0 < num_agents r \<and> snake_codes \<noteq> [] \<and> neutral_codes \<noteq> []"
  then obtain v where c: "compute_collusion_vector h sm r snake_codes neutral_codes
                            = Inr (sm\<lparr>collusion_vector := Some v\<rparr>)"
    using compute_collusion_vector_ok by blast
  from apply_then_reset [OF assms(1), of "sm\<lparr>collusion_vector := Some v\<rparr>" coefficient] assms(2)
  show "\<exists>sm' r'. steer_then_reset h sm r snake_codes neutral_codes coefficient = Inr (sm', r')"
    by (auto simp: steer_then_reset_def c)
qed

theorem steering_reset_restores_predict_witness:
  "\<exists>sm' r'.
     steer_then_reset two_bucket_hash SteeringMechanism
       \<lparr>vocab_size = 10000, num_agents = 100, agent_embedding = (\<lambda>i. [real_of_int i]),
        code_embedding = (\<lambda>t. [real_of_int t]), lstm = (\<lambda>xs. xs), trust_predictor = sum_list,
        forward_pre_hooks = [], next_hook_id = 0, training_buffer = []\<rparr>
       [''def solve_task(): pass''] [''def solve(): pass''] 2 = Inr (sm', r')
     \<and> predict two_bucket_hash r' (collusion_vector sm') 7 ''def solve_task(): pass''
         = predict two_bucket_hash
             \<lparr>vocab_size = 10000, num_agents = 100, agent_embedding = (\<lambda>i. [real_of_int i]),
              code_embedding = (\<lambda>t. [real_of_int t]), lstm = (\<lambda>xs. xs), trust_predictor = sum_list,
              forward_pre_hooks = [], next_hook_id = 0, training_buffer = []\<rparr>
             (collusion_vector SteeringMechanism) 7 ''def solve_task(): pass''"
proof -
  let ?r = "\<lparr>vocab_size = 10000, num_agents = 100, agent_embedding = (\<lambda>i. [real_of_int i]),
        code_embedding = (\<lambda>t. [real_of_int t]), lstm = (\<lambda>xs. xs), trust_predictor = sum_list,
        forward_pre_hooks = [], next_hook_id = 0, training_buffer = []\<rparr>"
  have a: "forward_pre_hooks ?r = []" by simp
  have b: "hook_handle SteeringMechanism = None" by (simp add: SteeringMechanism_def)
  have c: "0 < vocab_size ?r \<and> 0 < num_agents ?r
             \<and> [''def solve_task(): pass''] \<noteq> [] \<and> [''def solve(): pass''] \<noteq> []" by simp
  from steering_reset_restores_predict
         [OF a b, where h = two_bucket_hash and snake_codes = "[''def solve_task(): pass'']"
            and neutral_codes = "[''def solve(): pass'']" and coefficient = 2
            and agent_id = 7 and code = "''def solve_task(): pass''"] c
  show ?thesis by blast
qed

section \<open>Properties of the engine's agent keys\<close>

lemma hash_not_injective: "\<exists>s t. s \<noteq> t \<and> (h :: string \<Rightarrow> 64 word) s = h t"
proof (rule ccontr)
  assume "\<nexists>s t. s \<noteq> t \<and> h s = h t"
  then have "inj h" by (auto simp: inj_on_def)
  then have "finite (UNIV :: string set)"
    using finite_imageD [of h UNIV] by (simp add: finite_subset [OF subset_UNIV])
  then show False using infinite_UNIV_listI by blast
qed

text \<open>
  C2, as stated, fails: the key is the hash of the worker's string identifier, and no
  hash into machine integers gives distinct keys to all populations with distinct
  identifiers.
\<close>

theorem agent_ids_collision:
  "\<not> (\<exists>h :: string \<Rightarrow> 64 word. \<forall>agents. distinct (map worker_id agents) \<longrightarrow> distinct (agent_ids h agents))"
proof
  assume "\<exists>h :: string \<Rightarrow> 64 word. \<forall>agents. distinct (map worker_id agents) \<longrightarrow> distinct (agent_ids h agents)"
  then obtain h :: "string \<Rightarrow> 64 word"
    where h: "\<And>agents. distinct (map worker_id agents) \<Longrightarrow> distinct (agent_ids h agents)" by blast
  obtain s t where st: "s \<noteq> t" "h s = h t" using hash_not_injective by blast
  have "distinct (agent_ids h [BaseWorker s 100 10 ''neutral'', BaseWorker t 100 10 ''neutral''])"
    by (rule h) (simp add: BaseWorker_def st)
  then show False by (simp add: agent_ids_def BaseWorker_def st)
qed

lemma distinct_map_sint: "distinct (map sint (xs :: 64 word list)) \<longleftrightarrow> distinct xs"
proof -
  have "inj_on (sint :: 64 word \<Rightarrow> int) (set xs)"
    by (rule inj_onI) (rule signed_word_eqI)
  then show ?thesis by (simp add: distinct_map)
qed

text \<open>
  C2, amended. In every step the key of an agent is \<open>hash(worker_id)\<close>: workers with
  the same identifier receive the same key, and the keys of a population are pairwise
  distinct exactly when the identifiers are pairwise distinct and the hash does not
  collide on them.
\<close>

theorem agent_ids_distinct_iff:
  "(worker_id a = worker_id b \<longrightarrow> agent_ids h [a] = agent_ids h [b])
   \<and> (distinct (agent_ids h agents)
        \<longleftrightarrow> distinct (map worker_id agents) \<and> inj_on h (worker_id ` set agents))"
proof -
  have "agent_ids h agents = map sint (map h (map worker_id agents))"
    by (simp add: agent_ids_def)
  then have "distinct (agent_ids h agents) \<longleftrightarrow> distinct (map h (map worker_id agents))"
    by (simp only: distinct_map_sint)
  also have "\<dots> \<longleftrightarrow> distinct (map worker_id agents) \<and> inj_on h (set (map worker_id agents))"
    by (rule distinct_map)
  finally show ?thesis
    by (simp add: agent_ids_def)
qed

theorem agent_ids_distinct_iff_witness:
  "distinct (agent_ids two_bucket_hash
               [BaseWorker ''agent_0'' 100 10 ''neutral'', BaseWorker ''agent_1'' 100 10 ''neutral''])"
proof -
  have "distinct (map worker_id
           [BaseWorker ''agent_0'' 100 10 ''neutral'', BaseWorker ''agent_1'' 100 10 ''neutral''])
        \<and> inj_on two_bucket_hash (worker_id `
             set [BaseWorker ''agent_0'' 100 10 ''neutral'', BaseWorker ''agent_1'' 100 10 ''neutral''])"
    by (simp add: BaseWorker_def two_bucket_hash_def)
  with agent_ids_distinct_iff [where h = two_bucket_hash
         and agents = "[BaseWorker ''agent_0'' 100 10 ''neutral'', BaseWorker ''agent_1'' 100 10 ''neutral'']"]
  show ?thesis by blast
qed

section \<open>Properties of the evolver\<close>








lemma id_numbers_Inr:
  "id_numbers agents = Inr ks \<Longrightarrow> length ks = length agents \<and> (\<forall>i < length agents. id_number (agents ! i) = Inr (ks ! i))"
proof (induction agents arbitrary: ks)
  case Nil then show ?case by simp
next
  case (Cons a agents)
  then obtain k ks' where k: "id_number a = Inr k" "id_numbers agents = Inr ks'" "ks = k # ks'"
    by (auto split: sum.splits)
  with Cons.IH [of ks'] show ?case by (auto simp: nth_Cons split: nat.splits)
qed



































end
